theory Spec2Isabelle
  imports Complex_Main "HOL-Library.AList"
begin

section \<open>Data model (models.py)\<close>

text \<open>
  The dataclasses of \<^verbatim>\<open>models.py\<close> become records. Python's \<^verbatim>\<open>int\<close> is
  \<^typ>\<open>int\<close>. Python's \<^verbatim>\<open>float\<close> (prices, tax rates, amounts) is modelled by
  \<^typ>\<open>real\<close>: the theorems about money speak of the exact values that the floating-point
  operations of the source approximate. Rounding, the values \<^verbatim>\<open>inf\<close> and \<^verbatim>\<open>nan\<close>, and the
  \<^verbatim>\<open>OverflowError\<close> of converting an integer beyond the float range are not modelled:
  an amount here is the exact number, not the stored floating-point one. Field names follow the
  source; a suffix tells apart fields that several dataclasses share, and \<^verbatim>\<open>id\<close> is
  suffixed because \<^term>\<open>id\<close> is the identity function of HOL.
\<close>

record Product =
  id_product :: string
  name :: string
  category :: string
  price :: real
  quantity :: int
  min_stock_level :: int
  tax_rate :: real

record Customer =
  name_customer :: string
  phone :: string
  email :: "string option"

record BillItem =
  product_id :: string
  product_name :: string
  quantity_item :: int
  unit_price :: real
  total_price :: real
  tax_amount :: real

text \<open>
  \<^verbatim>\<open>datetime\<close>: the calendar fields and the time of day. \<^verbatim>\<open>.date()\<close> keeps year,
  month and day.
\<close>

record datetime =
  year :: int
  month :: int
  day :: int
  hour :: int
  minute :: int
  second :: int
  microsecond :: int

type_synonym date = "int \<times> int \<times> int"

definition date_of :: "datetime \<Rightarrow> date" where
  "date_of d = (year d, month d, day d)"

record Bill =
  id_bill :: string
  customer :: Customer
  items :: "BillItem list"
  subtotal :: real
  tax_amount_bill :: real
  total_amount :: real
  created_at :: datetime
  status :: string

record InventoryAlert =
  product_id_alert :: string
  product_name_alert :: string
  current_quantity :: int
  min_required :: int
  suggested_order_quantity :: int

section \<open>Persistence (database.py)\<close>

text \<open>
  \<^verbatim>\<open>DatabaseManager\<close> keeps two JSON files. \<^verbatim>\<open>products.json\<close> is an object from
  key to product record; a Python \<^verbatim>\<open>dict\<close> keeps insertion order, so the file is an
  association list (looked up with \<^const>\<open>map_of\<close>). \<^verbatim>\<open>bills.json\<close> is an array of
  bills. \<^verbatim>\<open>to_dict\<close> followed by \<^verbatim>\<open>from_dict\<close> gives the record back, so loading
  and saving are the identity on the stored value. I/O exceptions are not modelled.
\<close>

record store =
  products_file :: "(string \<times> Product) list"
  bills_file :: "Bill list"

definition load_products :: "store \<Rightarrow> (string \<times> Product) list" where
  "load_products s = products_file s"

definition save_products :: "(string \<times> Product) list \<Rightarrow> store \<Rightarrow> store" where
  "save_products products s = s\<lparr>products_file := products\<rparr>"

definition get_all_products :: "store \<Rightarrow> Product list" where
  "get_all_products s = map snd (load_products s)"

definition get_product_by_id :: "string \<Rightarrow> store \<Rightarrow> Product option" where
  "get_product_by_id pid s = map_of (load_products s) pid"

text \<open>
  \<^verbatim>\<open>products[product.id] = product\<close>: an existing key keeps its position and gets
  the new value, a new key is appended. That is \<^const>\<open>AList.update\<close>.
\<close>

definition update_product :: "Product \<Rightarrow> store \<Rightarrow> store" where
  "update_product product s =
     save_products (AList.update (id_product product) product (load_products s)) s"

definition load_bills :: "store \<Rightarrow> Bill list" where
  "load_bills s = bills_file s"

definition save_bills :: "Bill list \<Rightarrow> store \<Rightarrow> store" where
  "save_bills bills s = s\<lparr>bills_file := bills\<rparr>"

definition add_bill :: "Bill \<Rightarrow> store \<Rightarrow> store" where
  "add_bill bill s = save_bills (load_bills s @ [bill]) s"

definition get_bill_by_id :: "string \<Rightarrow> store \<Rightarrow> Bill option" where
  "get_bill_by_id bid s = find (\<lambda>bill. id_bill bill = bid) (load_bills s)"

text \<open>
  \<^verbatim>\<open>DatabaseManager.get_low_stock_products\<close>: one alert per product under its minimum
  stock level, in the order of the catalog, suggesting \<^verbatim>\<open>100 - product.quantity\<close>.
\<close>

definition get_low_stock_products :: "store \<Rightarrow> InventoryAlert list" where
  "get_low_stock_products s =
     map (\<lambda>product.
            \<lparr>product_id_alert = id_product product,
             product_name_alert = name product,
             current_quantity = quantity product,
             min_required = min_stock_level product,
             suggested_order_quantity = 100 - quantity product\<rparr>)
         (filter (\<lambda>product. quantity product < min_stock_level product)
                 (map snd (load_products s)))"

text \<open>
  \<^verbatim>\<open>DatabaseManager.update_product_quantity\<close> (lines 168 to 175): it assigns the new
  quantity to the product stored under the key and saves; it does not look at the sign
  of the quantity.
\<close>

definition update_product_quantity_db :: "string \<Rightarrow> int \<Rightarrow> store \<Rightarrow> bool \<times> store" where
  "update_product_quantity_db pid new_quantity s =
     (case map_of (load_products s) pid of
        Some product \<Rightarrow>
          (True, save_products
                   (AList.update pid (product\<lparr>quantity := new_quantity\<rparr>) (load_products s)) s)
      | None \<Rightarrow> (False, s))"

section \<open>Billing (billing_service.py)\<close>

text \<open>
  \<^verbatim>\<open>create_bill\<close> returns \<^verbatim>\<open>None\<close> on both of its failures; what tells them apart
  is the message it logs first. The model returns that message as the error value, with
  exactly the values the message interpolates:
  \<^verbatim>\<open>Product {product_id} not found\<close> and
  \<^verbatim>\<open>Insufficient stock for {product.name}. Available: {product.quantity}\<close>.
\<close>

datatype error =
    ProductNotFound string
  | InsufficientStock string int

text \<open>
  The local variables of \<^verbatim>\<open>create_bill\<close> that the loop changes. \<open>products\<close> is the
  dictionary loaded once before the loop; \<^verbatim>\<open>product.quantity -= quantity\<close> mutates
  the object held in it.
\<close>

record locals =
  products :: "(string \<times> Product) list"
  bill_items :: "BillItem list"
  subtotal_l :: real
  total_tax_l :: real

text \<open>Lines 46 to 57: the line item of one requested entry.\<close>

definition bill_item_of :: "string \<Rightarrow> int \<Rightarrow> Product \<Rightarrow> BillItem" where
  "bill_item_of pid qty product =
     \<lparr>product_id = pid,
      product_name = name product,
      quantity_item = qty,
      unit_price = price product,
      total_price = price product * of_int qty,
      tax_amount = (price product * of_int qty) * tax_rate product\<rparr>"

text \<open>
  The loop over \<^verbatim>\<open>items_purchased.items()\<close>. A failing entry returns at once, with
  the store as the earlier iterations left it: each iteration that passes its two checks
  ends with \<^verbatim>\<open>self.db.update_product(product)\<close>, which rewrites the product file.
\<close>

fun create_bill_loop ::
  "(string \<times> int) list \<Rightarrow> locals \<Rightarrow> store \<Rightarrow> error option \<times> locals \<times> store" where
  "create_bill_loop [] v s = (None, v, s)"
| "create_bill_loop ((pid, qty) # rest) v s =
     (case map_of (products v) pid of
        None \<Rightarrow> (Some (ProductNotFound pid), v, s)
      | Some product \<Rightarrow>
          if quantity product < qty
          then (Some (InsufficientStock (name product) (quantity product)), v, s)
          else
            let bill_item = bill_item_of pid qty product;
                product' = product\<lparr>quantity := quantity product - qty\<rparr>
            in create_bill_loop rest
                 (v\<lparr>products := AList.update pid product' (products v),
                    bill_items := bill_items v @ [bill_item],
                    subtotal_l := subtotal_l v + total_price bill_item,
                    total_tax_l := total_tax_l v + tax_amount bill_item\<rparr>)
                 (update_product product' s))"

text \<open>
  \<^verbatim>\<open>create_bill(customer_info, items_purchased)\<close>. \<open>customer_info\<close> is a dictionary
  read with \<^verbatim>\<open>.get\<close>; \<open>items_purchased\<close> is a dictionary in iteration order. The two
  values the source draws from its environment are parameters: \<open>new_id\<close> for
  \<^verbatim>\<open>str(uuid.uuid4())[:8].upper()\<close> and \<open>now\<close> for \<^verbatim>\<open>datetime.now()\<close>.
\<close>

definition create_bill ::
  "(string \<rightharpoonup> string) \<Rightarrow> (string \<times> int) list \<Rightarrow> string \<Rightarrow> datetime \<Rightarrow> store
     \<Rightarrow> (error + Bill) \<times> store" where
  "create_bill customer_info items_purchased new_id now s =
     (let cust = \<lparr>name_customer = (case customer_info ''name'' of None \<Rightarrow> [] | Some n \<Rightarrow> n),
                  phone = (case customer_info ''phone'' of None \<Rightarrow> [] | Some n \<Rightarrow> n),
                  email = customer_info ''email''\<rparr>;
          v0 = \<lparr>products = load_products s, bill_items = [],
                subtotal_l = 0, total_tax_l = 0\<rparr>
      in case create_bill_loop items_purchased v0 s of
           (Some e, v, s') \<Rightarrow> (Inl e, s')
         | (None, v, s') \<Rightarrow>
             let bill = \<lparr>id_bill = new_id,
                         customer = cust,
                         items = bill_items v,
                         subtotal = subtotal_l v,
                         tax_amount_bill = total_tax_l v,
                         total_amount = subtotal_l v + total_tax_l v,
                         created_at = now,
                         status = ''completed''\<rparr>
             in (Inr bill, add_bill bill s'))"

text \<open>
  \<^verbatim>\<open>validate_quantity\<close>, the check the GUI runs before it puts a line in the cart.
  The message is a value of its own type; the third message carries the available
  quantity, as the f-string does.
\<close>

datatype quantity_message =
    Valid
  | QuantityMustBeGreaterThan0
  | ProductNotFoundMsg
  | InsufficientStockAvailable int

definition validate_quantity :: "string \<Rightarrow> int \<Rightarrow> store \<Rightarrow> bool \<times> quantity_message" where
  "validate_quantity pid qty s =
     (if qty \<le> 0 then (False, QuantityMustBeGreaterThan0)
      else case map_of (load_products s) pid of
             None \<Rightarrow> (False, ProductNotFoundMsg)
           | Some product \<Rightarrow>
               if quantity product < qty
               then (False, InsufficientStockAvailable (quantity product))
               else (True, Valid))"

text \<open>
  \<^verbatim>\<open>get_daily_sales_summary\<close>. \<open>date_s\<close> holds the date whose ISO text the source
  stores under \<^verbatim>\<open>'date'\<close>; \<open>total_items\<close> adds up \<^verbatim>\<open>len(bill.items)\<close>, the number
  of line items of each bill.
\<close>

record sales_summary =
  date_s :: date
  total_sales :: real
  total_bills :: nat
  total_items :: nat
  average_bill_value :: real

definition get_daily_sales_summary :: "datetime \<Rightarrow> store \<Rightarrow> sales_summary" where
  "get_daily_sales_summary d s =
     (let bills = load_bills s;
          daily_bills = filter (\<lambda>bill. date_of (created_at bill) = date_of d) bills;
          sales = sum_list (map total_amount daily_bills);
          n_bills = length daily_bills;
          n_items = sum_list (map (\<lambda>bill. length (items bill)) daily_bills)
      in \<lparr>date_s = date_of d,
          total_sales = sales,
          total_bills = n_bills,
          total_items = n_items,
          average_bill_value = (if n_bills > 0 then sales / of_nat n_bills else 0)\<rparr>)"

section \<open>Inventory (inventory_service.py)\<close>

text \<open>
  \<^verbatim>\<open>InventoryService.update_product_quantity\<close>: the \<^verbatim>\<open>ValueError\<close> for a negative
  quantity is caught in the method itself, which then returns \<^verbatim>\<open>False\<close>.
\<close>

definition update_product_quantity :: "string \<Rightarrow> int \<Rightarrow> store \<Rightarrow> bool \<times> store" where
  "update_product_quantity pid new_quantity s =
     (if new_quantity < 0 then (False, s)
      else case get_product_by_id pid s of
             Some product \<Rightarrow> (True, update_product (product\<lparr>quantity := new_quantity\<rparr>) s)
           | None \<Rightarrow> (False, s))"

definition add_stock :: "string \<Rightarrow> int \<Rightarrow> store \<Rightarrow> bool \<times> store" where
  "add_stock pid qty s =
     (case get_product_by_id pid s of
        None \<Rightarrow> (False, s)
      | Some product \<Rightarrow> update_product_quantity pid (quantity product + qty) s)"

definition get_low_stock_alerts :: "store \<Rightarrow> InventoryAlert list" where
  "get_low_stock_alerts s = get_low_stock_products s"

text \<open>
  The class body defines \<^verbatim>\<open>check_stock_levels\<close> twice. The first definition (lines 82
  to 103) builds alerts with \<^verbatim>\<open>max(50, product.min_stock_level * 2)\<close>; the second
  (lines 132 to 150) replaces it in the class and sorts the alerts of
  \<^verbatim>\<open>get_low_stock_alerts\<close> into three lists.
\<close>

definition check_stock_levels_overridden :: "store \<Rightarrow> InventoryAlert list" where
  "check_stock_levels_overridden s =
     map (\<lambda>product.
            \<lparr>product_id_alert = id_product product,
             product_name_alert = name product,
             current_quantity = quantity product,
             min_required = min_stock_level product,
             suggested_order_quantity = max 50 (min_stock_level product * 2)\<rparr>)
         (filter (\<lambda>product. quantity product < min_stock_level product)
                 (get_all_products s))"

record categorized =
  critical :: "InventoryAlert list"
  low :: "InventoryAlert list"
  normal :: "InventoryAlert list"

definition check_stock_levels :: "store \<Rightarrow> categorized" where
  "check_stock_levels s =
     (let alerts = get_low_stock_alerts s
      in \<lparr>critical = filter (\<lambda>a. current_quantity a < 10) alerts,
          low = filter (\<lambda>a. \<not> current_quantity a < 10 \<and> current_quantity a < 50) alerts,
          normal = filter (\<lambda>a. \<not> current_quantity a < 10 \<and> \<not> current_quantity a < 50) alerts\<rparr>)"

section \<open>Product edit route (api.py)\<close>

text \<open>
  The body of \<^verbatim>\<open>PUT /products/{product_id}\<close> is a \<^verbatim>\<open>ProductUpdate\<close>, each field
  optional. The handler (lines 163 to 190) answers 404 when the product is absent;
  otherwise it assigns every field that is present to the product and writes it with
  \<^verbatim>\<open>db.update_product\<close>. The result is the HTTP status.
\<close>

record ProductUpdate =
  name_edit :: "string option"
  category_edit :: "string option"
  price_edit :: "real option"
  quantity_edit :: "int option"
  min_stock_level_edit :: "int option"
  tax_rate_edit :: "real option"

definition update_product_api :: "string \<Rightarrow> ProductUpdate \<Rightarrow> store \<Rightarrow> nat \<times> store" where
  "update_product_api pid product_update s =
     (case get_product_by_id pid s of
        None \<Rightarrow> (404, s)
      | Some product \<Rightarrow>
          let p1 = (case name_edit product_update of
                      None \<Rightarrow> product | Some v \<Rightarrow> product\<lparr>name := v\<rparr>);
              p2 = (case category_edit product_update of
                      None \<Rightarrow> p1 | Some v \<Rightarrow> p1\<lparr>category := v\<rparr>);
              p3 = (case price_edit product_update of
                      None \<Rightarrow> p2 | Some v \<Rightarrow> p2\<lparr>price := v\<rparr>);
              p4 = (case quantity_edit product_update of
                      None \<Rightarrow> p3 | Some v \<Rightarrow> p3\<lparr>quantity := v\<rparr>);
              p5 = (case min_stock_level_edit product_update of
                      None \<Rightarrow> p4 | Some v \<Rightarrow> p4\<lparr>min_stock_level := v\<rparr>);
              p6 = (case tax_rate_edit product_update of
                      None \<Rightarrow> p5 | Some v \<Rightarrow> p5\<lparr>tax_rate := v\<rparr>)
          in (200, update_product p6 s))"

section \<open>Sequences of operations\<close>

text \<open>
  The operations of the repository that change quantities on hand: a billing
  transaction (whatever its outcome), the two quantity updates of the inventory service,
  the quantity update of the database manager, and the product edit route.
\<close>

datatype operation =
    CreateBill "string \<rightharpoonup> string" "(string \<times> int) list" string datetime
  | UpdateProductQuantity string int
  | AddStock string int
  | UpdateProductQuantityDb string int
  | UpdateProductApi string ProductUpdate

fun apply_operation :: "operation \<Rightarrow> store \<Rightarrow> store" where
  "apply_operation (CreateBill ci its new_id now) s = snd (create_bill ci its new_id now s)"
| "apply_operation (UpdateProductQuantity pid n) s = snd (update_product_quantity pid n s)"
| "apply_operation (AddStock pid n) s = snd (add_stock pid n s)"
| "apply_operation (UpdateProductQuantityDb pid n) s = snd (update_product_quantity_db pid n s)"
| "apply_operation (UpdateProductApi pid u) s = snd (update_product_api pid u s)"

definition run_operations :: "operation list \<Rightarrow> store \<Rightarrow> store" where
  "run_operations ops s = foldl (\<lambda>s' op. apply_operation op s') s ops"

definition no_negative_quantity :: "store \<Rightarrow> bool" where
  "no_negative_quantity s = list_all (\<lambda>e. 0 \<le> quantity (snd e)) (load_products s)"

section \<open>The preconditions of a billing line, as the specification words them\<close>

text \<open>
  For one entry of the request, against a catalog: first the identifier must exist,
  then the requested quantity must not exceed the quantity on hand.
  \<open>spec_first_violation\<close> is the violation of the first entry, in iteration order, that
  has one.
\<close>

definition spec_line_violation :: "(string \<times> Product) list \<Rightarrow> string \<times> int \<Rightarrow> error option" where
  "spec_line_violation catalog e =
     (case map_of catalog (fst e) of
        None \<Rightarrow> Some (ProductNotFound (fst e))
      | Some product \<Rightarrow>
          if snd e > quantity product
          then Some (InsufficientStock (name product) (quantity product))
          else None)"

fun spec_first_violation :: "(string \<times> Product) list \<Rightarrow> (string \<times> int) list \<Rightarrow> error option" where
  "spec_first_violation catalog [] = None"
| "spec_first_violation catalog (e # es) =
     (case spec_line_violation catalog e of
        Some err \<Rightarrow> Some err
      | None \<Rightarrow> spec_first_violation catalog es)"

section \<open>Concrete catalogs\<close>

text \<open>
  Scenario A of the specification: one product \<^verbatim>\<open>rice_l\<close> priced 3.00, tax 0.05,
  quantity 100, minimum stock 30. \<open>two_products\<close> adds a second product with 5 units.
\<close>

definition rice :: Product where
  "rice = \<lparr>id_product = ''rice_l'', name = ''Rice 1kg'', category = ''Grocery'',
           price = 3, quantity = 100, min_stock_level = 30, tax_rate = 5 / 100\<rparr>"

definition oil :: Product where
  "oil = \<lparr>id_product = ''oil_l'', name = ''Cooking Oil 1L'', category = ''Grocery'',
          price = 4, quantity = 5, min_stock_level = 30, tax_rate = 5 / 100\<rparr>"

definition scenario_store :: store where
  "scenario_store = \<lparr>products_file = [(''rice_l'', rice)], bills_file = []\<rparr>"

definition two_products :: store where
  "two_products = \<lparr>products_file = [(''rice_l'', rice), (''oil_l'', oil)], bills_file = []\<rparr>"

definition customer_A :: "string \<rightharpoonup> string" where
  "customer_A = [''name'' \<mapsto> ''A'', ''phone'' \<mapsto> ''5550000'']"

definition negative_quantity_edit :: ProductUpdate where
  "negative_quantity_edit =
     \<lparr>name_edit = None, category_edit = None, price_edit = None,
      quantity_edit = Some (- 5), min_stock_level_edit = None, tax_rate_edit = None\<rparr>"

definition noon :: datetime where
  "noon = \<lparr>year = 2024, month = 5, day = 17, hour = 12, minute = 0, second = 0,
           microsecond = 0\<rparr>"

text \<open>
  What scenario A leaves behind: the bill for 10 units of rice, and the store after it.
  \<open>history\<close> is a bill file with that bill and a second one dated the next day.
\<close>

definition scenario_bill :: Bill where
  "scenario_bill =
     \<lparr>id_bill = ''AB12CD34'',
      customer = \<lparr>name_customer = ''A'', phone = ''5550000'', email = None\<rparr>,
      items = [\<lparr>product_id = ''rice_l'', product_name = ''Rice 1kg'', quantity_item = 10,
                unit_price = 3, total_price = 30, tax_amount = 3 / 2\<rparr>],
      subtotal = 30, tax_amount_bill = 3 / 2, total_amount = 63 / 2,
      created_at = noon, status = ''completed''\<rparr>"

definition scenario_store_after :: store where
  "scenario_store_after =
     \<lparr>products_file = [(''rice_l'', rice\<lparr>quantity := 90\<rparr>)], bills_file = [scenario_bill]\<rparr>"

definition history :: store where
  "history =
     \<lparr>products_file = [(''rice_l'', rice)],
      bills_file = [scenario_bill,
                    scenario_bill\<lparr>id_bill := ''EF56AB78'', created_at := noon\<lparr>day := 18\<rparr>\<rparr>]\<rparr>"

section \<open>Lemmas about the store and the billing loop\<close>

lemmas store_defs = load_products_def save_products_def update_product_def load_bills_def
  save_bills_def add_bill_def get_product_by_id_def

lemma load_update_product:
  "load_products (update_product p s) = AList.update (id_product p) p (load_products s)"
  by (simp add: update_product_def save_products_def load_products_def)

lemma load_bills_update_product: "load_bills (update_product p s) = load_bills s"
  by (simp add: update_product_def save_products_def load_bills_def)

lemma load_bills_edits:
  "load_bills (foldl (\<lambda>t p. update_product p t) s edits) = load_bills s"
  by (induction edits arbitrary: s) (simp_all add: load_bills_update_product)

lemma filter_update_other:
  "filter (\<lambda>e. fst e \<noteq> k) (AList.update k v al) = filter (\<lambda>e. fst e \<noteq> k) al"
  by (induction al) auto

lemma list_all_update:
  "list_all P al \<Longrightarrow> P (k, v) \<Longrightarrow> list_all P (AList.update k v al)"
  by (induction al) auto

lemma foldl_plus_sum_list: "foldl (+) a xs = a + sum_list (xs :: real list)"
  by (induction xs arbitrary: a) simp_all

text \<open>The running totals are the sums over the line items built so far.\<close>

lemma loop_sums:
  "create_bill_loop its v s = (r, v', s') \<Longrightarrow>
   subtotal_l v = sum_list (map total_price (bill_items v)) \<Longrightarrow>
   total_tax_l v = sum_list (map tax_amount (bill_items v)) \<Longrightarrow>
   subtotal_l v' = sum_list (map total_price (bill_items v'))
   \<and> total_tax_l v' = sum_list (map tax_amount (bill_items v'))"
proof (induction its arbitrary: v s)
  case Nil
  then show ?case by simp
next
  case (Cons e its)
  obtain pid qty where e: "e = (pid, qty)" by (cases e)
  show ?case
  proof (cases "map_of (products v) pid")
    case None
    with Cons.prems e show ?thesis by simp
  next
    case (Some product)
    show ?thesis
    proof (cases "quantity product < qty")
      case True
      with Cons.prems e Some show ?thesis by simp
    next
      case False
      with Cons.prems e Some show ?thesis
        by (intro Cons.IH[where
              v = "v\<lparr>products := AList.update pid
                                   (product\<lparr>quantity := quantity product - qty\<rparr>) (products v),
                     bill_items := bill_items v @ [bill_item_of pid qty product],
                     subtotal_l := subtotal_l v + total_price (bill_item_of pid qty product),
                     total_tax_l := total_tax_l v + tax_amount (bill_item_of pid qty product)\<rparr>"
              and s = "update_product (product\<lparr>quantity := quantity product - qty\<rparr>) s"])
           (simp_all add: Let_def)
    qed
  qed
qed

text \<open>The loop never writes the bill file.\<close>

lemma loop_bills: "create_bill_loop its v s = (r, v', s') \<Longrightarrow> load_bills s' = load_bills s"
  by (induction its v s rule: create_bill_loop.induct)
     (auto simp: Let_def load_bills_def update_product_def save_products_def
           split: option.splits if_splits)

text \<open>
  No quantity below zero in the dictionary in memory and in the file before the loop,
  none in the file after it, however the loop ends.
\<close>

lemma loop_nonneg:
  "create_bill_loop its v s = (r, v', s') \<Longrightarrow>
   list_all (\<lambda>e. 0 \<le> quantity (snd e)) (products v) \<Longrightarrow>
   no_negative_quantity s \<Longrightarrow>
   no_negative_quantity s'"
proof (induction its v s rule: create_bill_loop.induct)
  case (1 v s)
  then show ?case by simp
next
  case (2 pid qty rest v s)
  show ?case
  proof (cases "map_of (products v) pid")
    case None
    with 2 show ?thesis by simp
  next
    case (Some product)
    then have "(pid, product) \<in> set (products v)" by (rule map_of_SomeD)
    with "2.prems"(2) have q: "0 \<le> quantity product" by (auto simp: list_all_iff)
    show ?thesis
    proof (cases "quantity product < qty")
      case True
      with 2 Some show ?thesis by simp
    next
      case False
      let ?p = "product\<lparr>quantity := quantity product - qty\<rparr>"
      have a: "list_all (\<lambda>e. 0 \<le> quantity (snd e)) (AList.update pid ?p (products v))"
        using "2.prems"(2) False by (intro list_all_update) simp_all
      have b: "no_negative_quantity (update_product ?p s)"
        using "2.prems"(3) False
        by (simp add: no_negative_quantity_def load_products_def update_product_def
            save_products_def list_all_update)
      show ?thesis
        using "2.IH"[OF Some False refl refl _ _ b] "2.prems"(1) Some False a
        by (simp add: Let_def)
    qed
  qed
qed

lemma create_bill_nonneg:
  assumes n: "no_negative_quantity s"
  shows "no_negative_quantity (snd (create_bill ci its nid now s))"
proof -
  let ?v0 = "\<lparr>products = load_products s, bill_items = [], subtotal_l = 0, total_tax_l = 0\<rparr>"
  obtain r v' s' where l: "create_bill_loop its ?v0 s = (r, v', s')"
    by (cases "create_bill_loop its ?v0 s") auto
  from n have "list_all (\<lambda>e. 0 \<le> quantity (snd e)) (products ?v0)"
    by (simp add: no_negative_quantity_def)
  from loop_nonneg[OF l this n] have "no_negative_quantity s'" .
  then show ?thesis using l
    by (cases r) (simp_all add: create_bill_def Let_def no_negative_quantity_def
        add_bill_def save_bills_def load_products_def)
qed

lemma update_product_quantity_nonneg:
  "no_negative_quantity s \<Longrightarrow> no_negative_quantity (snd (update_product_quantity pid n s))"
  by (auto simp: update_product_quantity_def no_negative_quantity_def load_products_def
      update_product_def save_products_def list_all_update split: option.splits)

lemma add_stock_nonneg:
  "no_negative_quantity s \<Longrightarrow> no_negative_quantity (snd (add_stock pid n s))"
  by (simp add: add_stock_def update_product_quantity_nonneg split: option.splits)

lemma update_product_quantity_db_nonneg:
  "no_negative_quantity s \<Longrightarrow> 0 \<le> n \<Longrightarrow>
   no_negative_quantity (snd (update_product_quantity_db pid n s))"
  by (auto simp: update_product_quantity_db_def no_negative_quantity_def load_products_def
      save_products_def list_all_update split: option.splits)

lemma update_product_api_nonneg:
  assumes n: "no_negative_quantity s"
    and u: "case quantity_edit u of None \<Rightarrow> True | Some n \<Rightarrow> 0 \<le> n"
  shows "no_negative_quantity (snd (update_product_api pid u s))"
proof (cases "get_product_by_id pid s")
  case None
  with n show ?thesis by (simp add: update_product_api_def)
next
  case (Some product)
  then have "(pid, product) \<in> set (load_products s)"
    by (simp add: get_product_by_id_def map_of_SomeD)
  with n have q: "0 \<le> quantity product"
    by (auto simp: no_negative_quantity_def list_all_iff)
  have keep: "no_negative_quantity (update_product p s)" if "0 \<le> quantity p" for p
    using n that
    by (simp add: no_negative_quantity_def load_products_def update_product_def
        save_products_def list_all_update)
  show ?thesis
    using Some q u
    by (auto simp: update_product_api_def Let_def split: option.splits intro!: keep)
qed

text \<open>
  The operations that check before they write keep every quantity at or above zero; the
  two that do not check keep it so when the quantity they are given is not negative.
\<close>

lemma apply_operation_nonneg:
  "no_negative_quantity s \<Longrightarrow>
   (case op of
      UpdateProductQuantityDb pid n \<Rightarrow> 0 \<le> n
    | UpdateProductApi pid u \<Rightarrow> (case quantity_edit u of None \<Rightarrow> True | Some n \<Rightarrow> 0 \<le> n)
    | _ \<Rightarrow> True) \<Longrightarrow>
   no_negative_quantity (apply_operation op s)"
  by (cases op)
     (simp_all add: create_bill_nonneg update_product_quantity_nonneg add_stock_nonneg
        update_product_quantity_db_nonneg update_product_api_nonneg)

lemma checked_operations_nonneg:
  "no_negative_quantity s \<Longrightarrow>
   list_all (\<lambda>op. case op of
      UpdateProductQuantityDb pid n \<Rightarrow> 0 \<le> n
    | UpdateProductApi pid u \<Rightarrow> (case quantity_edit u of None \<Rightarrow> True | Some n \<Rightarrow> 0 \<le> n)
    | _ \<Rightarrow> True) ops \<Longrightarrow>
   no_negative_quantity (run_operations ops s)"
  unfolding run_operations_def
  by (induction ops arbitrary: s) (simp_all add: apply_operation_nonneg)

lemma create_bill_sums:
  assumes "create_bill ci its nid now s = (Inr bill, s')"
  shows "total_amount bill = subtotal bill + tax_amount_bill bill"
    and "subtotal bill = sum_list (map total_price (items bill))"
    and "tax_amount_bill bill = sum_list (map tax_amount (items bill))"
proof -
  let ?v0 = "\<lparr>products = load_products s, bill_items = [], subtotal_l = 0, total_tax_l = 0\<rparr>"
  obtain r v1 s1 where l: "create_bill_loop its ?v0 s = (r, v1, s1)"
    by (cases "create_bill_loop its ?v0 s") auto
  from assms l have b: "items bill = bill_items v1" "subtotal bill = subtotal_l v1"
      "tax_amount_bill bill = total_tax_l v1"
      "total_amount bill = subtotal_l v1 + total_tax_l v1"
    by (cases r; auto simp: create_bill_def Let_def)+
  from loop_sums[OF l] have "subtotal_l v1 = sum_list (map total_price (bill_items v1))"
     "total_tax_l v1 = sum_list (map tax_amount (bill_items v1))" by simp_all
  with b show "total_amount bill = subtotal bill + tax_amount_bill bill"
    and "subtotal bill = sum_list (map total_price (items bill))"
    and "tax_amount_bill bill = sum_list (map tax_amount (items bill))" by simp_all
qed

lemma scenario_run:
  "create_bill customer_A [(''rice_l'', 10)] ''AB12CD34'' noon scenario_store
     = (Inr scenario_bill, scenario_store_after)"
  by (simp add: create_bill_def store_defs scenario_store_def scenario_store_after_def
      scenario_bill_def rice_def bill_item_of_def customer_A_def Let_def)

section \<open>Frame of update_product\<close>

text \<open>
  C10. After \<^verbatim>\<open>update_product(p)\<close> the catalog maps the identifier of \<open>p\<close> to \<open>p\<close>,
  and the record stored under every other key is the one stored before; the entries
  under the other keys keep their order, and the bill file is not touched.
\<close>

theorem update_product_frame:
  "get_product_by_id (id_product p) (update_product p s) = Some p
   \<and> (\<forall>k. k \<noteq> id_product p \<longrightarrow>
          get_product_by_id k (update_product p s) = get_product_by_id k s)
   \<and> filter (\<lambda>e. fst e \<noteq> id_product p) (load_products (update_product p s))
       = filter (\<lambda>e. fst e \<noteq> id_product p) (load_products s)
   \<and> load_bills (update_product p s) = load_bills s"
  by (simp add: get_product_by_id_def load_update_product load_bills_update_product
      update_conv' filter_update_other)

theorem update_product_frame_witness:
  "get_product_by_id ''rice_l'' (update_product (rice\<lparr>price := 20\<rparr>) two_products)
     = Some (rice\<lparr>price := 20\<rparr>)
   \<and> ''oil_l'' \<noteq> id_product (rice\<lparr>price := 20\<rparr>)
   \<and> get_product_by_id ''oil_l'' (update_product (rice\<lparr>price := 20\<rparr>) two_products)
     = get_product_by_id ''oil_l'' two_products"
  using update_product_frame[of "rice\<lparr>price := 20\<rparr>" two_products]
  by (simp add: rice_def)

section \<open>Quantities on hand can become negative\<close>

text \<open>
  C2 on the code: the catalog of scenario A has no negative quantity, and
  \<^verbatim>\<open>InventoryService.update_product_quantity\<close> refuses to set the quantity of rice to
  -5. The product edit route, given the same quantity, stores it, and so does
  \<^verbatim>\<open>DatabaseManager.update_product_quantity\<close>: after either operation rice has -5 units
  on hand.
\<close>

theorem quantity_negative_after_unchecked_update:
  "no_negative_quantity scenario_store
   \<and> update_product_quantity ''rice_l'' (- 5) scenario_store = (False, scenario_store)
   \<and> fst (update_product_api ''rice_l'' negative_quantity_edit scenario_store) = 200
   \<and> map_option quantity (get_product_by_id ''rice_l''
        (run_operations [UpdateProductApi ''rice_l'' negative_quantity_edit] scenario_store))
       = Some (- 5)
   \<and> \<not> no_negative_quantity
        (run_operations [UpdateProductApi ''rice_l'' negative_quantity_edit] scenario_store)
   \<and> fst (update_product_quantity_db ''rice_l'' (- 5) scenario_store)
   \<and> map_option quantity (get_product_by_id ''rice_l''
        (run_operations [UpdateProductQuantityDb ''rice_l'' (- 5)] scenario_store))
       = Some (- 5)
   \<and> \<not> no_negative_quantity
        (run_operations [UpdateProductQuantityDb ''rice_l'' (- 5)] scenario_store)"
  by (simp add: no_negative_quantity_def run_operations_def update_product_quantity_def
      update_product_api_def update_product_quantity_db_def negative_quantity_edit_def
      store_defs scenario_store_def rice_def Let_def)

section \<open>The line items of a bill\<close>

lemma bill_item_of_cong:
  "name p = name p' \<Longrightarrow> price p = price p' \<Longrightarrow> tax_rate p = tax_rate p' \<Longrightarrow>
   bill_item_of pid qty p = bill_item_of pid qty p'"
  by (simp add: bill_item_of_def)

text \<open>
  The loop changes only the quantity of the products it holds, and a line item does not
  read the quantity on hand: every item appended is the item of its entry and of the
  product as the catalog had it before the loop.
\<close>

lemma loop_items:
  "create_bill_loop its v s = (None, v', s') \<Longrightarrow>
   (\<forall>k p'. map_of (products v) k = Some p' \<longrightarrow>
      (\<exists>p. map_of catalog k = Some p \<and> name p = name p' \<and> price p = price p'
           \<and> tax_rate p = tax_rate p')) \<Longrightarrow>
   \<exists>new. bill_items v' = bill_items v @ new \<and>
     list_all2 (\<lambda>e item. \<exists>p. map_of catalog (fst e) = Some p
                  \<and> item = bill_item_of (fst e) (snd e) p) its new"
proof (induction its v s rule: create_bill_loop.induct)
  case (1 v s)
  then show ?case by simp
next
  case (2 pid qty rest v s)
  from "2.prems"(1) obtain product where
    Some: "map_of (products v) pid = Some product" and nlt: "\<not> quantity product < qty"
    by (auto split: option.splits if_splits)
  let ?p = "product\<lparr>quantity := quantity product - qty\<rparr>"
  let ?v = "v\<lparr>products := AList.update pid ?p (products v),
              bill_items := bill_items v @ [bill_item_of pid qty product],
              subtotal_l := subtotal_l v + total_price (bill_item_of pid qty product),
              total_tax_l := total_tax_l v + tax_amount (bill_item_of pid qty product)\<rparr>"
  from "2.prems"(2) Some obtain p0 where
    p0: "map_of catalog pid = Some p0" "name p0 = name product" "price p0 = price product"
        "tax_rate p0 = tax_rate product"
    by blast
  have inv: "\<forall>k p'. map_of (products ?v) k = Some p' \<longrightarrow>
      (\<exists>p. map_of catalog k = Some p \<and> name p = name p' \<and> price p = price p'
           \<and> tax_rate p = tax_rate p')"
    using "2.prems"(2) p0 by (auto simp: update_conv')
  have run: "create_bill_loop rest ?v (update_product ?p s) = (None, v', s')"
    using "2.prems"(1) Some nlt by (simp add: Let_def)
  from "2.IH"[OF Some nlt refl refl run inv] obtain new where
    new: "bill_items v' = bill_items ?v @ new"
         "list_all2 (\<lambda>e item. \<exists>p. map_of catalog (fst e) = Some p
                  \<and> item = bill_item_of (fst e) (snd e) p) rest new"
    by blast
  have "bill_item_of pid qty product = bill_item_of pid qty p0"
    using p0 by (intro bill_item_of_cong) simp_all
  with new p0(1) show ?case
    by (intro exI[of _ "bill_item_of pid qty product # new"]) simp
qed

lemma create_bill_items:
  assumes "create_bill ci its nid now s = (Inr bill, s')"
  shows "list_all2 (\<lambda>e item. \<exists>p. get_product_by_id (fst e) s = Some p
                  \<and> item = bill_item_of (fst e) (snd e) p) its (items bill)"
proof -
  let ?v0 = "\<lparr>products = load_products s, bill_items = [], subtotal_l = 0, total_tax_l = 0\<rparr>"
  obtain r v1 s1 where l: "create_bill_loop its ?v0 s = (r, v1, s1)"
    by (cases "create_bill_loop its ?v0 s") auto
  from assms l have r: "r = None" and b: "items bill = bill_items v1"
    by (cases r; auto simp: create_bill_def Let_def)+
  have "\<forall>k p'. map_of (products ?v0) k = Some p' \<longrightarrow>
      (\<exists>p. map_of (load_products s) k = Some p \<and> name p = name p' \<and> price p = price p'
           \<and> tax_rate p = tax_rate p')"
    by simp
  from loop_items[OF l[unfolded r] this] b show ?thesis
    by (simp add: get_product_by_id_def)
qed

lemma create_bill_bills:
  assumes "create_bill ci its nid now s = (Inr bill, s')"
  shows "load_bills s' = load_bills s @ [bill]"
proof -
  let ?v0 = "\<lparr>products = load_products s, bill_items = [], subtotal_l = 0, total_tax_l = 0\<rparr>"
  obtain r v1 s1 where l: "create_bill_loop its ?v0 s = (r, v1, s1)"
    by (cases "create_bill_loop its ?v0 s") auto
  from loop_bills[OF l] assms l show ?thesis
    by (cases r) (auto simp: create_bill_def Let_def add_bill_def save_bills_def load_bills_def)
qed

text \<open>
  C5. In every bill that \<^verbatim>\<open>create_bill\<close> returns, the line items follow the entries of
  the request in iteration order; the item of an entry has the unit price of the product
  in the catalog read by the transaction, a total price equal to that unit price times
  the requested quantity, and a tax amount equal to that total price times the product's
  tax rate; subtotal and tax amount are accumulated from zero over the items in that
  order. In scenario A (rice priced 3.00, tax rate 0.05, 100 on hand, 10 requested) the
  bill has one line with total price 30 and tax 1.50, its total amount is 31.50, and the
  catalog afterwards holds 90 units of rice.
\<close>

theorem create_bill_lines:
  "(create_bill ci its nid now s = (Inr bill, s') \<longrightarrow>
      list_all2 (\<lambda>e item. \<exists>p. get_product_by_id (fst e) s = Some p
                   \<and> product_id item = fst e \<and> quantity_item item = snd e
                   \<and> unit_price item = price p
                   \<and> total_price item = price p * of_int (snd e)
                   \<and> tax_amount item = total_price item * tax_rate p) its (items bill)
      \<and> subtotal bill = foldl (+) 0 (map total_price (items bill))
      \<and> tax_amount_bill bill = foldl (+) 0 (map tax_amount (items bill))
      \<and> total_amount bill = subtotal bill + tax_amount_bill bill)
   \<and> (case create_bill customer_A [(''rice_l'', 10)] nid now scenario_store of
         (Inr b, t) \<Rightarrow> map total_price (items b) = [30] \<and> map tax_amount (items b) = [3 / 2]
                       \<and> total_amount b = 63 / 2
                       \<and> map_option quantity (get_product_by_id ''rice_l'' t) = Some 90
       | (Inl e, t) \<Rightarrow> False)"
proof (intro conjI impI)
  assume run: "create_bill ci its nid now s = (Inr bill, s')"
  have "list_all2 (\<lambda>e item. \<exists>p. get_product_by_id (fst e) s = Some p
                  \<and> item = bill_item_of (fst e) (snd e) p) its (items bill)"
    using run by (rule create_bill_items)
  then show "list_all2 (\<lambda>e item. \<exists>p. get_product_by_id (fst e) s = Some p
                   \<and> product_id item = fst e \<and> quantity_item item = snd e
                   \<and> unit_price item = price p
                   \<and> total_price item = price p * of_int (snd e)
                   \<and> tax_amount item = total_price item * tax_rate p) its (items bill)"
    by (rule list_all2_mono) (auto simp: bill_item_of_def)
  show "subtotal bill = foldl (+) 0 (map total_price (items bill))"
    using create_bill_sums(2)[OF run] by (simp add: foldl_plus_sum_list)
  show "tax_amount_bill bill = foldl (+) 0 (map tax_amount (items bill))"
    using create_bill_sums(3)[OF run] by (simp add: foldl_plus_sum_list)
  show "total_amount bill = subtotal bill + tax_amount_bill bill"
    using run by (rule create_bill_sums(1))
next
  show "case create_bill customer_A [(''rice_l'', 10)] nid now scenario_store of
         (Inr b, t) \<Rightarrow> map total_price (items b) = [30] \<and> map tax_amount (items b) = [3 / 2]
                       \<and> total_amount b = 63 / 2
                       \<and> map_option quantity (get_product_by_id ''rice_l'' t) = Some 90
       | (Inl e, t) \<Rightarrow> False"
    by (simp add: create_bill_def store_defs scenario_store_def rice_def bill_item_of_def
        Let_def)
qed

theorem create_bill_lines_witness:
  "create_bill customer_A [(''rice_l'', 10)] ''AB12CD34'' noon scenario_store
     = (Inr scenario_bill, scenario_store_after)
   \<and> list_all2 (\<lambda>e item. \<exists>p. get_product_by_id (fst e) scenario_store = Some p
                   \<and> product_id item = fst e \<and> quantity_item item = snd e
                   \<and> unit_price item = price p
                   \<and> total_price item = price p * of_int (snd e)
                   \<and> tax_amount item = total_price item * tax_rate p)
        [(''rice_l'', 10)] (items scenario_bill)
   \<and> subtotal scenario_bill = foldl (+) 0 (map total_price (items scenario_bill))"
  using create_bill_lines[of customer_A "[(''rice_l'', 10)]" "''AB12CD34''" noon scenario_store
      scenario_bill scenario_store_after] scenario_run
  by simp

section \<open>Bills keep their own snapshot\<close>

text \<open>
  C8. A bill that \<^verbatim>\<open>create_bill\<close> returns is appended to the bill file, and any later
  sequence of \<^verbatim>\<open>update_product\<close> edits of the catalog leaves the bill file, and what
  \<^verbatim>\<open>get_bill_by_id\<close> returns, as they were. Each line item holds its own copy of the
  name and unit price of the product and the tax computed from its tax rate, all as the
  catalog had them when the transaction read it.
\<close>

theorem bill_unaffected_by_catalog_edit:
  assumes "create_bill ci its nid now s = (Inr bill, s')"
  shows "load_bills s' = load_bills s @ [bill]
       \<and> load_bills (foldl (\<lambda>t p. update_product p t) s' edits) = load_bills s'
       \<and> get_bill_by_id b (foldl (\<lambda>t p. update_product p t) s' edits) = get_bill_by_id b s'
       \<and> list_all2 (\<lambda>e item. \<exists>p. get_product_by_id (fst e) s = Some p
                   \<and> product_id item = fst e
                   \<and> product_name item = name p
                   \<and> unit_price item = price p
                   \<and> total_price item = price p * of_int (snd e)
                   \<and> tax_amount item = price p * of_int (snd e) * tax_rate p)
            its (items bill)"
proof -
  have "list_all2 (\<lambda>e item. \<exists>p. get_product_by_id (fst e) s = Some p
                  \<and> item = bill_item_of (fst e) (snd e) p) its (items bill)"
    using assms by (rule create_bill_items)
  then have "list_all2 (\<lambda>e item. \<exists>p. get_product_by_id (fst e) s = Some p
                   \<and> product_id item = fst e
                   \<and> product_name item = name p
                   \<and> unit_price item = price p
                   \<and> total_price item = price p * of_int (snd e)
                   \<and> tax_amount item = price p * of_int (snd e) * tax_rate p)
            its (items bill)"
    by (rule list_all2_mono) (auto simp: bill_item_of_def)
  then show ?thesis
    using create_bill_bills[OF assms]
    by (simp add: load_bills_edits get_bill_by_id_def)
qed

theorem bill_unaffected_by_catalog_edit_witness:
  "create_bill customer_A [(''rice_l'', 10)] ''AB12CD34'' noon scenario_store
     = (Inr scenario_bill, scenario_store_after)
   \<and> get_product_by_id ''rice_l''
        (foldl (\<lambda>t p. update_product p t) scenario_store_after
           [rice\<lparr>price := 20, tax_rate := 1 / 10\<rparr>])
       = Some (rice\<lparr>price := 20, tax_rate := 1 / 10\<rparr>)
   \<and> load_bills (foldl (\<lambda>t p. update_product p t) scenario_store_after
                    [rice\<lparr>price := 20, tax_rate := 1 / 10\<rparr>]) = [scenario_bill]
   \<and> get_bill_by_id ''AB12CD34'' (foldl (\<lambda>t p. update_product p t) scenario_store_after
                    [rice\<lparr>price := 20, tax_rate := 1 / 10\<rparr>]) = Some scenario_bill
   \<and> map total_price (items scenario_bill) = [30]"
  using bill_unaffected_by_catalog_edit[OF scenario_run,
      of "[rice\<lparr>price := 20, tax_rate := 1 / 10\<rparr>]" "''AB12CD34''"] scenario_run
  by (simp add: store_defs get_bill_by_id_def scenario_store_after_def scenario_bill_def
      rice_def)

section \<open>Order and outcome of the two checks\<close>

text \<open>
  For a request whose keys are pairwise distinct (a dictionary), the loop fails exactly
  with the first violation that the original catalog gives: decrementing one product
  does not change what the later entries, which name other keys, are checked against.
\<close>

lemma loop_violation:
  "distinct (map fst its) \<Longrightarrow>
   (\<forall>k \<in> fst ` set its. map_of (products v) k = map_of catalog k) \<Longrightarrow>
   fst (create_bill_loop its v s) = spec_first_violation catalog its"
proof (induction its v s rule: create_bill_loop.induct)
  case (1 v s)
  then show ?case by simp
next
  case (2 pid qty rest v s)
  have same: "map_of (products v) pid = map_of catalog pid" using "2.prems"(2) by simp
  show ?case
  proof (cases "map_of (products v) pid")
    case None
    with same show ?thesis by (simp add: spec_line_violation_def)
  next
    case (Some product)
    show ?thesis
    proof (cases "quantity product < qty")
      case True
      with Some same show ?thesis by (simp add: spec_line_violation_def)
    next
      case False
      let ?p = "product\<lparr>quantity := quantity product - qty\<rparr>"
      let ?v = "v\<lparr>products := AList.update pid ?p (products v),
              bill_items := bill_items v @ [bill_item_of pid qty product],
              subtotal_l := subtotal_l v + total_price (bill_item_of pid qty product),
              total_tax_l := total_tax_l v + tax_amount (bill_item_of pid qty product)\<rparr>"
      have d: "distinct (map fst rest)" and nin: "pid \<notin> fst ` set rest"
        using "2.prems"(1) by auto
      have agree: "\<forall>k \<in> fst ` set rest. map_of (products ?v) k = map_of catalog k"
        using "2.prems"(2) nin by (auto simp: update_conv')
      from "2.IH"[OF Some False refl refl d agree] Some False same show ?thesis
        by (simp add: Let_def spec_line_violation_def)
    qed
  qed
qed

lemma spec_first_violation_None:
  "spec_first_violation catalog its = None \<longleftrightarrow>
     (\<forall>e \<in> set its. spec_line_violation catalog e = None)"
  by (induction its) (auto split: option.splits)

lemma create_bill_outcome:
  "(case fst (create_bill ci its nid now s) of
      Inl e \<Rightarrow> fst (create_bill_loop its
                  \<lparr>products = load_products s, bill_items = [], subtotal_l = 0,
                     total_tax_l = 0\<rparr> s) = Some e
    | Inr bill \<Rightarrow> fst (create_bill_loop its
                  \<lparr>products = load_products s, bill_items = [], subtotal_l = 0,
                     total_tax_l = 0\<rparr> s) = None)"
  by (simp add: create_bill_def Let_def split: prod.splits option.splits)

text \<open>
  C6, as stated, fails on the code: the failure for insufficient stock does not name the
  requested quantity. Requests for 150 and for 200 units of a product with 100 on hand
  end in the same report, which carries the product's name and the available quantity
  only, and both leave the store as it was.
\<close>

theorem insufficient_stock_report_omits_requested:
  "create_bill customer_A [(''rice_l'', 150)] ''AB12CD34'' noon scenario_store
     = (Inl (InsufficientStock ''Rice 1kg'' 100), scenario_store)
   \<and> create_bill customer_A [(''rice_l'', 200)] ''AB12CD34'' noon scenario_store
     = (Inl (InsufficientStock ''Rice 1kg'' 100), scenario_store)"
  by (simp add: create_bill_def store_defs scenario_store_def rice_def Let_def)

text \<open>
  C6, amended. For every request with pairwise distinct keys, \<^verbatim>\<open>create_bill\<close> checks
  each entry in iteration order against the catalog it loaded: first that the identifier
  exists, failing with the product-not-found report naming the identifier otherwise;
  second that the requested quantity does not exceed the quantity on hand, failing
  with the insufficient-stock report naming the product's name and the available
  quantity otherwise. The failure reported is that of the first entry that violates
  a check, and \<^verbatim>\<open>create_bill\<close> fails if and only if some entry violates one.
\<close>

theorem create_bill_preconditions:
  assumes "distinct (map fst its)"
  shows "(case fst (create_bill ci its nid now s) of
            Inl e \<Rightarrow> spec_first_violation (load_products s) its = Some e
          | Inr bill \<Rightarrow> spec_first_violation (load_products s) its = None)
       \<and> ((\<exists>e. fst (create_bill ci its nid now s) = Inl e) \<longleftrightarrow>
            (\<exists>e \<in> set its. spec_line_violation (load_products s) e \<noteq> None))"
proof -
  let ?v0 = "\<lparr>products = load_products s, bill_items = [], subtotal_l = 0, total_tax_l = 0\<rparr>"
  have l: "fst (create_bill_loop its ?v0 s) = spec_first_violation (load_products s) its"
    using assms by (intro loop_violation) simp_all
  have a: "(case fst (create_bill ci its nid now s) of
            Inl e \<Rightarrow> spec_first_violation (load_products s) its = Some e
          | Inr bill \<Rightarrow> spec_first_violation (load_products s) its = None)"
    using create_bill_outcome[where ci = ci and its = its and nid = nid and now = now
        and s = s]
    by (simp add: l split: sum.splits)
  have "(\<exists>e. fst (create_bill ci its nid now s) = Inl e) \<longleftrightarrow>
          spec_first_violation (load_products s) its \<noteq> None"
    using a by (cases "fst (create_bill ci its nid now s)") auto
  with a show ?thesis by (simp add: spec_first_violation_None)
qed

theorem create_bill_preconditions_witness:
  "distinct (map fst [(''rice_l'', 10 :: int), (''unknown_id'', 1), (''oil_l'', 8)])
   \<and> fst (create_bill customer_A [(''rice_l'', 10), (''unknown_id'', 1), (''oil_l'', 8)]
             ''AB12CD34'' noon two_products) = Inl (ProductNotFound ''unknown_id'')
   \<and> spec_first_violation (load_products two_products)
        [(''rice_l'', 10), (''unknown_id'', 1), (''oil_l'', 8)]
       = Some (ProductNotFound ''unknown_id'')"
proof -
  have d: "distinct (map fst [(''rice_l'', 10 :: int), (''unknown_id'', 1), (''oil_l'', 8)])"
    by simp
  have r: "fst (create_bill customer_A [(''rice_l'', 10), (''unknown_id'', 1), (''oil_l'', 8)]
             ''AB12CD34'' noon two_products) = Inl (ProductNotFound ''unknown_id'')"
    by (simp add: create_bill_def store_defs two_products_def rice_def oil_def
        bill_item_of_def Let_def)
  from create_bill_preconditions[OF d, where ci = customer_A and nid = "''AB12CD34''"
      and now = noon and s = two_products] d r
  show ?thesis by simp
qed

section \<open>A failing line after a billed line\<close>

text \<open>
  C1 on the code, at scenario D of the specification: rice (100 on hand) and oil (5 on
  hand), a request for 10 units of rice and 8 of oil. The second line fails, no bill is
  returned and none is stored, and the product file holds 90 units of rice where it
  held 100: the decrement of the first line was written before the second was checked.
\<close>

theorem create_bill_partial_commit:
  "fst (create_bill customer_A [(''rice_l'', 10), (''oil_l'', 8)] ''AB12CD34'' noon two_products)
      = Inl (InsufficientStock ''Cooking Oil 1L'' 5)
   \<and> map_option quantity (get_product_by_id ''rice_l'' two_products) = Some 100
   \<and> map_option quantity (get_product_by_id ''rice_l''
        (snd (create_bill customer_A [(''rice_l'', 10), (''oil_l'', 8)] ''AB12CD34'' noon
                two_products))) = Some 90
   \<and> load_bills (snd (create_bill customer_A [(''rice_l'', 10), (''oil_l'', 8)] ''AB12CD34''
                        noon two_products)) = []"
  by (simp add: create_bill_def store_defs two_products_def rice_def oil_def bill_item_of_def
      Let_def)

section \<open>Requested quantities that are not positive\<close>

text \<open>
  C3 on the code: \<^verbatim>\<open>validate_quantity\<close> rejects a requested quantity of -5 before it
  looks the product up, but \<^verbatim>\<open>create_bill\<close> does not call it. For -5 units of rice it
  returns a bill with total amount -15.75, stores it, and raises the quantity on hand
  from 100 to 105; for 0 units it returns a bill as well.
\<close>

theorem create_bill_accepts_nonpositive_quantity:
  "validate_quantity ''rice_l'' (- 5) scenario_store = (False, QuantityMustBeGreaterThan0)
   \<and> (case create_bill customer_A [(''rice_l'', - 5)] ''AB12CD34'' noon scenario_store of
         (Inr bill, s') \<Rightarrow> total_amount bill = - (63 / 4)
                          \<and> map quantity_item (items bill) = [- 5]
                          \<and> map_option quantity (get_product_by_id ''rice_l'' s') = Some 105
                          \<and> load_bills s' = [bill]
       | (Inl e, s') \<Rightarrow> False)
   \<and> (case create_bill customer_A [(''rice_l'', 0)] ''AB12CD34'' noon scenario_store of
         (Inr bill, s') \<Rightarrow> total_amount bill = 0 \<and> load_bills s' = [bill]
       | (Inl e, s') \<Rightarrow> False)"
  by (simp add: validate_quantity_def create_bill_def store_defs scenario_store_def rice_def
      bill_item_of_def Let_def)

section \<open>Low-stock alerts\<close>

text \<open>
  C7, as stated, fails on the code: oil has 5 units on hand and a minimum stock level of
  30, so the rule of the claim suggests \<open>max 50 (2 * 30) = 60\<close>, and the alert that
  \<^verbatim>\<open>get_low_stock_alerts\<close> produces suggests 95.
\<close>

theorem low_stock_suggestion_counterexample:
  "map suggested_order_quantity (get_low_stock_alerts two_products) = [95]
   \<and> map product_id_alert (get_low_stock_alerts two_products) = [''oil_l'']
   \<and> max 50 (2 * min_stock_level oil) = 60"
  by (simp add: get_low_stock_alerts_def get_low_stock_products_def store_defs
      two_products_def rice_def oil_def)

text \<open>
  C7, amended. \<^verbatim>\<open>get_low_stock_alerts\<close> produces one alert for each product whose
  quantity on hand is strictly less than its minimum stock level, in catalog order, and
  none for any other product; each alert suggests 100 minus the product's quantity on
  hand. The first definition of \<^verbatim>\<open>check_stock_levels\<close>, which the second one replaces
  in the class, selects the same products and suggests \<open>max 50 (2 * minimum stock level)\<close>.
\<close>

theorem low_stock_alerts_rule:
  "list_all2 (\<lambda>product a. product_id_alert a = id_product product
                \<and> product_name_alert a = name product
                \<and> current_quantity a = quantity product
                \<and> min_required a = min_stock_level product
                \<and> suggested_order_quantity a = 100 - quantity product)
      (filter (\<lambda>product. quantity product < min_stock_level product) (get_all_products s))
      (get_low_stock_alerts s)
   \<and> list_all2 (\<lambda>product a. product_id_alert a = id_product product
                \<and> current_quantity a = quantity product
                \<and> min_required a = min_stock_level product
                \<and> suggested_order_quantity a = max 50 (2 * min_stock_level product))
      (filter (\<lambda>product. quantity product < min_stock_level product) (get_all_products s))
      (check_stock_levels_overridden s)"
  by (simp add: get_low_stock_alerts_def get_low_stock_products_def
      check_stock_levels_overridden_def get_all_products_def list_all2_map2 list_all2_same
      mult.commute)

theorem low_stock_alerts_rule_witness:
  "filter (\<lambda>product. quantity product < min_stock_level product) (get_all_products two_products)
     = [oil]
   \<and> map suggested_order_quantity (get_low_stock_alerts two_products) = [100 - quantity oil]
   \<and> map suggested_order_quantity (check_stock_levels_overridden two_products)
       = [max 50 (2 * min_stock_level oil)]"
proof -
  have f: "filter (\<lambda>product. quantity product < min_stock_level product)
             (get_all_products two_products) = [oil]"
    by (simp add: get_all_products_def load_products_def two_products_def rice_def oil_def)
  from low_stock_alerts_rule[of two_products] show ?thesis
    unfolding f by (auto simp: list_all2_Cons1)
qed

section \<open>Daily sales summary\<close>

text \<open>
  C9. For every date and bill history, the summary is computed from exactly the stored
  bills whose creation timestamp has that calendar date: their number, the sum of their
  total amounts, the number of their line items, and as average bill value the total
  sales divided by the number of bills when there is one, and 0 when there is none.
  Bills of other dates do not change the summary.
\<close>

theorem daily_sales_summary_correct:
  "total_bills (get_daily_sales_summary d s)
     = length (filter (\<lambda>bill. date_of (created_at bill) = date_of d) (load_bills s))
   \<and> total_sales (get_daily_sales_summary d s)
     = sum_list (map total_amount
         (filter (\<lambda>bill. date_of (created_at bill) = date_of d) (load_bills s)))
   \<and> total_items (get_daily_sales_summary d s)
     = sum_list (map (\<lambda>bill. length (items bill))
         (filter (\<lambda>bill. date_of (created_at bill) = date_of d) (load_bills s)))
   \<and> average_bill_value (get_daily_sales_summary d s)
     = (if 0 < total_bills (get_daily_sales_summary d s)
        then total_sales (get_daily_sales_summary d s)
               / real (total_bills (get_daily_sales_summary d s))
        else 0)
   \<and> date_s (get_daily_sales_summary d s) = date_of d
   \<and> get_daily_sales_summary d
        (save_bills (filter (\<lambda>bill. date_of (created_at bill) = date_of d) (load_bills s)) s)
     = get_daily_sales_summary d s"
proof -
  define daily where
    "daily = filter (\<lambda>bill. date_of (created_at bill) = date_of d) (load_bills s)"
  have summary: "get_daily_sales_summary d s =
      \<lparr>date_s = date_of d,
       total_sales = sum_list (map total_amount daily),
       total_bills = length daily,
       total_items = sum_list (map (\<lambda>bill. length (items bill)) daily),
       average_bill_value =
         (if length daily > 0 then sum_list (map total_amount daily) / of_nat (length daily)
          else 0)\<rparr>"
    by (simp add: get_daily_sales_summary_def Let_def daily_def)
  have again: "filter (\<lambda>bill. date_of (created_at bill) = date_of d) daily = daily"
    by (simp add: daily_def)
  have "get_daily_sales_summary d (save_bills daily s) = get_daily_sales_summary d s"
    unfolding summary
    by (simp add: get_daily_sales_summary_def Let_def load_bills_def save_bills_def again)
  then show ?thesis
    unfolding daily_def[symmetric] by (simp add: summary)
qed

theorem daily_sales_summary_correct_witness:
  "get_daily_sales_summary noon history
     = \<lparr>date_s = (2024, 5, 17), total_sales = 63 / 2, total_bills = 1, total_items = 1,
        average_bill_value = 63 / 2\<rparr>
   \<and> average_bill_value (get_daily_sales_summary (noon\<lparr>day := 19\<rparr>) history) = 0
   \<and> total_bills (get_daily_sales_summary (noon\<lparr>day := 19\<rparr>) history) = 0"
  using daily_sales_summary_correct[of noon history]
    daily_sales_summary_correct[of "noon\<lparr>day := 19\<rparr>" history]
  by (simp add: get_daily_sales_summary_def Let_def load_bills_def history_def
      scenario_bill_def noon_def date_of_def)

end
